theory Spec2Isabelle
  imports Main
begin

section \<open>Text primitives of the Python source\<close>

text \<open>
  A Python \<open>str\<close> is modelled as \<open>string\<close>, a list of bytes: the UTF-8 encoding of the
  text. An ASCII character is one byte, and no byte of a longer character is an ASCII
  byte, so searching for an ASCII character, splitting at one and comparing with an ASCII
  word are the same on the bytes as on the characters. A pipe or terminal stream is the
  text that travels over it, after newline translation, so that a line ends at the
  character \<open>0x0A\<close>.
\<close>

datatype py_error =
    FileNotFoundError
  | IsADirectoryError
  | PermissionError
  | OSError
  | IndexError
  | KeyError
  | ValueError
  | EOFError
  | BrokenPipeError
  | ConfigParserError string

definition newline :: char where
  "newline = CHR 0x0A"

definition space :: char where
  "space = CHR 0x20"

definition squote :: char where
  "squote = CHR 0x27"

definition dquote :: char where
  "dquote = CHR 0x22"

definition backslash :: char where
  "backslash = CHR 0x5C"

text \<open>
  The characters for which \<open>str.isspace\<close> holds, which \<open>str.strip()\<close> removes, in UTF-8.
  One byte: U+0009 to U+000D, U+001C to U+001F and U+0020. Two bytes: U+0085 and U+00A0.
  Three bytes: U+1680, U+2000 to U+200A, U+2028, U+2029, U+202F, U+205F and U+3000.
\<close>

definition space1 :: "char \<Rightarrow> bool" where
  "space1 a = (a \<in> set [CHR 0x09, CHR 0x0A, CHR 0x0B, CHR 0x0C, CHR 0x0D,
                          CHR 0x1C, CHR 0x1D, CHR 0x1E, CHR 0x1F, CHR 0x20])"

definition space2 :: "char \<Rightarrow> char \<Rightarrow> bool" where
  "space2 a b = (a = CHR 0xC2 \<and> b \<in> set [CHR 0x85, CHR 0xA0])"

definition space3 :: "char \<Rightarrow> char \<Rightarrow> char \<Rightarrow> bool" where
  "space3 a b c =
     (a = CHR 0xE1 \<and> b = CHR 0x9A \<and> c = CHR 0x80
      \<or> a = CHR 0xE2 \<and> b = CHR 0x80
          \<and> c \<in> set [CHR 0x80, CHR 0x81, CHR 0x82, CHR 0x83, CHR 0x84, CHR 0x85, CHR 0x86,
                        CHR 0x87, CHR 0x88, CHR 0x89, CHR 0x8A, CHR 0xA8, CHR 0xA9, CHR 0xAF]
      \<or> a = CHR 0xE2 \<and> b = CHR 0x81 \<and> c = CHR 0x9F
      \<or> a = CHR 0xE3 \<and> b = CHR 0x80 \<and> c = CHR 0x80)"

text \<open>
  \<open>strip_front\<close> removes the white space characters at the front of a text. With the flag
  set the text is read backwards, each character with its last byte first: that is the
  white space at the end of the reversed text.
\<close>

fun strip_front :: "bool \<Rightarrow> string \<Rightarrow> string" where
  "strip_front bw (a # b # c # s) =
     (if space1 a then strip_front bw (b # c # s)
      else if (if bw then space2 b a else space2 a b) then strip_front bw (c # s)
      else if (if bw then space3 c b a else space3 a b c) then strip_front bw s
      else a # b # c # s)"
| "strip_front bw [a, b] =
     (if space1 a then strip_front bw [b]
      else if (if bw then space2 b a else space2 a b) then []
      else [a, b])"
| "strip_front bw [a] = (if space1 a then [] else [a])"
| "strip_front bw [] = []"

definition strip :: "string \<Rightarrow> string" where
  "strip s = rev (strip_front True (rev (strip_front False s)))"

definition startswith :: "string \<Rightarrow> string \<Rightarrow> bool" where
  "startswith s p = (take (length p) s = p)"

definition endswith :: "string \<Rightarrow> string \<Rightarrow> bool" where
  "endswith s p = (length p \<le> length s \<and> drop (length s - length p) s = p)"

text \<open>
  \<open>readline\<close> on a text stream: the text up to and including the first newline, or all
  that is left when the stream ends first (the empty string at end of file); the second
  component is what stays in the stream.
\<close>

definition readline :: "string \<Rightarrow> string \<times> string" where
  "readline s =
     (case dropWhile (\<lambda>c. c \<noteq> newline) s of
        [] \<Rightarrow> (s, [])
      | _ # rest \<Rightarrow> (takeWhile (\<lambda>c. c \<noteq> newline) s @ [newline], rest))"

text \<open>\<open>s.split(' ', 1)\<close> for a string that contains a space: the text before the first
  space and the text after it.\<close>

definition split_first_space :: "string \<Rightarrow> string \<times> string" where
  "split_first_space s =
     (takeWhile (\<lambda>c. c \<noteq> space) s, tl (dropWhile (\<lambda>c. c \<noteq> space) s))"

text \<open>
  \<open>str.lower()\<close> on the ASCII letters. The source compares the result with ASCII words
  only, and no other character becomes an ASCII letter in lower case, so the bytes of the
  other characters are left as they are.
\<close>

definition lower_char :: "char \<Rightarrow> char" where
  "lower_char c =
     (case map_of (zip ''ABCDEFGHIJKLMNOPQRSTUVWXYZ'' ''abcdefghijklmnopqrstuvwxyz'') c of
        Some l \<Rightarrow> l
      | None \<Rightarrow> c)"

definition lower :: "string \<Rightarrow> string" where
  "lower s = map lower_char s"

definition hexdigit :: "nat \<Rightarrow> char" where
  "hexdigit n = ''0123456789abcdef'' ! (n mod 16)"

text \<open>\<open>repr\<close> of a string of printable characters and ASCII control characters, as the
  \<open>{command=}\<close> form of an f-string prints it.\<close>

definition repr_char :: "char \<Rightarrow> char \<Rightarrow> string" where
  "repr_char q c =
     (let n = (of_char c :: nat) in
      if c = backslash then [backslash, backslash]
      else if c = q then [backslash, q]
      else if c = CHR 0x09 then [backslash, CHR ''t'']
      else if c = CHR 0x0A then [backslash, CHR ''n'']
      else if c = CHR 0x0D then [backslash, CHR ''r'']
      else if n < 32 \<or> n = 127 then [backslash, CHR ''x'', hexdigit (n div 16), hexdigit n]
      else [c])"

definition py_repr :: "string \<Rightarrow> string" where
  "py_repr s =
     (let q = (if squote \<in> set s \<and> dquote \<notin> set s then dquote else squote)
      in q # concat (map (repr_char q) s) @ [q])"

section \<open>The privileged helper process\<close>

text \<open>
  The state of the helper: the text still to be read from its standard input, the text it
  has written to its standard output, the file system, and the list of paths it has asked
  the operating system to unlink. The operating system's \<open>unlink\<close> is a parameter: it
  either raises or returns the file system without the file.
\<close>

record 'fs helper_state =
  h_stdin :: string
  h_stdout :: string
  h_fs :: 'fs
  h_unlinked :: "string list"

definition usage_message :: string where
  "usage_message =
     ''Must be in the form '' @ [squote] @ ''[CMD] ...'' @ [backslash, CHR ''n'', squote, newline]"

definition not_desktop_message :: string where
  "not_desktop_message = ''ERR Must be a .desktop file.'' @ [newline]"

definition success_message :: "string \<Rightarrow> string" where
  "success_message entry = ''UNLINK '' @ entry @ '' SUCCESS'' @ [newline]"

definition unknown_message :: "string \<Rightarrow> string \<Rightarrow> string" where
  "unknown_message command entry =
     ''ERR Unknown: command='' @ py_repr command @ '' entry='' @ py_repr entry @ [newline]"

definition write_stdout :: "string \<Rightarrow> 'fs helper_state \<Rightarrow> 'fs helper_state" where
  "write_stdout msg st = st\<lparr>h_stdout := h_stdout st @ msg\<rparr>"

text \<open>
  One iteration of the \<open>while True\<close> loop of \<open>start_privilaged\<close>. \<open>Inr\<close> is the state in
  which the loop goes on to its next iteration; \<open>Inl\<close> is an exception leaving the loop,
  with the state the process is in at that moment.
\<close>

definition helper_step ::
  "('fs \<Rightarrow> string \<Rightarrow> py_error + 'fs) \<Rightarrow> 'fs helper_state
     \<Rightarrow> (py_error \<times> 'fs helper_state) + 'fs helper_state" where
  "helper_step os_unlink st =
     (let (line, rest) = readline (h_stdin st);
          entry = strip line;
          st1 = st\<lparr>h_stdin := rest\<rparr>
      in if space \<notin> set entry then Inr (write_stdout usage_message st1)
         else
           let (command, entry) = split_first_space entry
           in if command = ''UNLINK'' then
                if \<not> endswith entry ''.desktop'' then Inr (write_stdout not_desktop_message st1)
                else
                  let st2 = st1\<lparr>h_unlinked := h_unlinked st1 @ [entry]\<rparr>
                  in (case os_unlink (h_fs st2) entry of
                        Inl e \<Rightarrow> Inl (e, st2)
                      | Inr fs' \<Rightarrow> Inr (write_stdout (success_message entry) (st2\<lparr>h_fs := fs'\<rparr>)))
              else Inr (write_stdout (unknown_message command entry) st1))"

text \<open>
  The loop itself. It has no exit of its own: it ends only when an exception leaves it, and
  \<open>None\<close> is the run that goes on for ever.
\<close>

partial_function (option) start_privilaged ::
  "('fs \<Rightarrow> string \<Rightarrow> py_error + 'fs) \<Rightarrow> 'fs helper_state
     \<Rightarrow> (py_error \<times> 'fs helper_state) option" where
  "start_privilaged os_unlink st =
     (case helper_step os_unlink st of
        Inl stopped \<Rightarrow> Some stopped
      | Inr st' \<Rightarrow> start_privilaged os_unlink st')"

text \<open>
  A small file system on which the model can be run: a path names a regular file (with a
  flag telling whether an unprivileged process may remove it), a directory, or nothing.
  \<open>fs_unlink\<close> is \<open>unlink\<close> on it, for a privileged or an unprivileged caller.
\<close>

datatype node = File bool | Dir

definition fs_unlink :: "bool \<Rightarrow> (string \<rightharpoonup> node) \<Rightarrow> string \<Rightarrow> py_error + (string \<rightharpoonup> node)" where
  "fs_unlink privileged fs p =
     (case fs p of
        None \<Rightarrow> Inl FileNotFoundError
      | Some Dir \<Rightarrow> Inl IsADirectoryError
      | Some (File removable) \<Rightarrow>
          if privileged \<or> removable then Inr (fs(p := None)) else Inl PermissionError)"

section \<open>The scanner\<close>

text \<open>The class \<open>Entry\<close>: every attribute but the location starts as \<open>None\<close>.\<close>

record Entry =
  location :: string
  reason :: "string option"
  exec :: "string option"
  full_exec :: "string option"

definition new_entry :: "string \<Rightarrow> Entry" where
  "new_entry loc = \<lparr>location = loc, reason = None, exec = None, full_exec = None\<rparr>"

text \<open>
  The library calls of the scanner are parameters: \<open>shlex.split\<close> (which raises
  \<open>ValueError\<close> on an unbalanced quote), \<open>os.path.exists\<close> and \<open>shutil.which\<close>.
\<close>

record scan_os =
  shlex_split :: "string \<Rightarrow> py_error + string list"
  path_exists :: "string \<Rightarrow> bool"
  which :: "string \<Rightarrow> string option"

text \<open>
  The \<open>ConfigParser\<close> object is a map from section names to sections, a section a map
  from option names to values; the defaults are the section \<open>DEFAULT\<close>. A desktop file is
  given by what \<open>config.read\<close> finds in it: its sections in order, each with its options
  (the names as \<open>optionxform\<close> leaves them, in lower case), and the message of the
  \<open>configparser.Error\<close> that \<open>read\<close> raises, if it raises. \<open>read\<close> adds what it finds to
  the parser it is called on, and what it stored before raising stays. A file that cannot
  be opened is passed over by \<open>read\<close>: it is a file in which nothing is found.
\<close>

type_synonym options = "string \<rightharpoonup> string"

type_synonym config = "string \<rightharpoonup> options"

record desktop_file =
  f_location :: string
  f_sections :: "(string \<times> (string \<times> string) list) list"
  f_error :: "string option"

definition add_options :: "options \<Rightarrow> (string \<times> string) list \<Rightarrow> options" where
  "add_options sec kvs = fold (\<lambda>(k, v) m. m(k \<mapsto> v)) kvs sec"

definition config_read :: "config \<Rightarrow> (string \<times> (string \<times> string) list) list \<Rightarrow> config" where
  "config_read cfg secs =
     fold (\<lambda>(name, kvs) c.
             c(name \<mapsto> add_options (case c name of None \<Rightarrow> Map.empty | Some sec \<Rightarrow> sec) kvs))
       secs cfg"

text \<open>\<open>config["Desktop Entry"]["Exec"]\<close>: a \<open>KeyError\<close> when the section is not there, or
  when neither the section nor the defaults have the option.\<close>

definition get_exec :: "config \<Rightarrow> py_error + string" where
  "get_exec cfg =
     (case cfg ''Desktop Entry'' of
        None \<Rightarrow> Inl KeyError
      | Some sec \<Rightarrow>
          (case sec (lower ''Exec'') of
             Some v \<Rightarrow> Inr v
           | None \<Rightarrow>
               (case cfg ''DEFAULT'' of
                  None \<Rightarrow> Inl KeyError
                | Some dflt \<Rightarrow>
                    (case dflt (lower ''Exec'') of None \<Rightarrow> Inl KeyError | Some v \<Rightarrow> Inr v))))"

text \<open>Lines 65 to 68: the executable of a token list. Indexing an empty list raises
  \<open>IndexError\<close>.\<close>

definition resolve_exec :: "string list \<Rightarrow> py_error + string" where
  "resolve_exec command =
     (case command of
        [] \<Rightarrow> Inl IndexError
      | c0 # rest \<Rightarrow>
          if lower c0 = ''env'' then
            (case filter (\<lambda>c. CHR ''='' \<notin> set c) rest of
               [] \<Rightarrow> Inl IndexError
             | x # _ \<Rightarrow> Inr x)
          else Inr c0)"

text \<open>
  Lines 62 to 76, the body of the \<open>try\<close> after \<open>config.read\<close>. The result is the entry
  and whether it was appended to \<open>broken\<close>, or the exception raised together with the
  entry as it is at that moment.
\<close>

definition classify :: "scan_os \<Rightarrow> config \<Rightarrow> Entry \<Rightarrow> (py_error \<times> Entry) + (Entry \<times> bool)" where
  "classify os cfg entry =
     (case get_exec cfg of
        Inl e \<Rightarrow> Inl (e, entry)
      | Inr v \<Rightarrow>
          let entry = entry\<lparr>full_exec := Some (strip v)\<rparr>
          in (case shlex_split os (strip v) of
                Inl e \<Rightarrow> Inl (e, entry)
              | Inr command \<Rightarrow>
                  (case resolve_exec command of
                     Inl e \<Rightarrow> Inl (e, entry)
                   | Inr x \<Rightarrow>
                       let entry = entry\<lparr>exec := Some x\<rparr>
                       in if startswith x ''/'' \<or> startswith x ''~'' then
                            if \<not> path_exists os x then
                              Inr (entry\<lparr>reason := Some ''Executable does not exist.''\<rparr>, True)
                            else Inr (entry, False)
                          else if which os x = None then
                            Inr (entry\<lparr>reason := Some ''Executable not found in $PATH.''\<rparr>, True)
                          else Inr (entry, False))))"

definition first_line :: "string \<Rightarrow> string" where
  "first_line msg = takeWhile (\<lambda>c. c \<noteq> newline) msg"

text \<open>
  One iteration of the inner loop, on the parser as the earlier iterations left it. The two
  \<open>except\<close> clauses turn a parser error and a \<open>KeyError\<close> into a broken entry; any other
  exception leaves the function. The result is the parser after the iteration and the
  entries appended to \<open>broken\<close>.
\<close>

definition scan_file :: "scan_os \<Rightarrow> config \<Rightarrow> desktop_file \<Rightarrow> py_error + (config \<times> Entry list)" where
  "scan_file os cfg f =
     (let entry = new_entry (f_location f);
          cfg' = config_read cfg (f_sections f);
          body = (case f_error f of
                    Some msg \<Rightarrow> Inl (ConfigParserError msg, entry)
                  | None \<Rightarrow> classify os cfg' entry)
      in case body of
           Inr (entry, appended) \<Rightarrow> Inr (cfg', if appended then [entry] else [])
         | Inl (e, entry) \<Rightarrow>
             (case e of
                ConfigParserError msg \<Rightarrow> Inr (cfg', [entry\<lparr>reason := Some (first_line msg)\<rparr>])
              | KeyError \<Rightarrow>
                  Inr (cfg', [entry\<lparr>reason := Some ''No [Desktop Entry].Exec entry found.''\<rparr>])
              | _ \<Rightarrow> Inl e))"

fun scan_files :: "scan_os \<Rightarrow> config \<Rightarrow> desktop_file list \<Rightarrow> Entry list \<Rightarrow> py_error + Entry list" where
  "scan_files os cfg [] broken = Inr broken"
| "scan_files os cfg (f # fs) broken =
     (case scan_file os cfg f of
        Inl e \<Rightarrow> Inl e
      | Inr (cfg', new) \<Rightarrow> scan_files os cfg' fs (broken @ new))"

text \<open>
  \<open>find_broken_desktop_files\<close>, on the desktop files of the search directories in the order
  in which the two loops visit them: one parser, made before the loops, serves all files.
\<close>

definition find_broken_desktop_files :: "scan_os \<Rightarrow> desktop_file list \<Rightarrow> py_error + Entry list" where
  "find_broken_desktop_files os files = scan_files os Map.empty files []"

text \<open>
  Tilde expansion as \<open>os.path.expanduser\<close> performs it: \<open>~\<close> alone or before a slash is
  the home directory, \<open>~name\<close> the home directory of that user when the password database
  knows one and the text as it is when it does not, and a text that does not start with a
  tilde is left as it is. The scanner does not call it on the executable; it serves to say
  what the expanded form of a token is.
\<close>

definition rstrip_slash :: "string \<Rightarrow> string" where
  "rstrip_slash s = rev (dropWhile (\<lambda>c. c = CHR ''/'') (rev s))"

definition expanduser :: "string \<Rightarrow> (string \<Rightarrow> string option) \<Rightarrow> string \<Rightarrow> string" where
  "expanduser home pw_dir path =
     (if \<not> startswith path ''~'' then path
      else
        let name = takeWhile (\<lambda>c. c \<noteq> CHR ''/'') (tl path);
            rest = dropWhile (\<lambda>c. c \<noteq> CHR ''/'') (tl path)
        in (case (if name = [] then Some home else pw_dir name) of
              None \<Rightarrow> path
            | Some userhome \<Rightarrow>
                (let r = rstrip_slash userhome @ rest in if r = [] then ''/'' else r)))"

text \<open>
  Shell-word splitting of a text without quotes and backslashes, where it is splitting at
  runs of the characters space, tab, carriage return and newline. It serves to run the
  scanner on such texts.
\<close>

fun split_words :: "string \<Rightarrow> string \<Rightarrow> string list" where
  "split_words tok [] = (if tok = [] then [] else [tok])"
| "split_words tok (c # cs) =
     (if c \<in> set [CHR 0x20, CHR 0x09, CHR 0x0D, CHR 0x0A]
      then (if tok = [] then split_words [] cs else tok # split_words [] cs)
      else split_words (tok @ [c]) cs)"

definition plain_os :: "(string \<Rightarrow> bool) \<Rightarrow> (string \<Rightarrow> string option) \<Rightarrow> scan_os" where
  "plain_os ex wh = \<lparr>shlex_split = (\<lambda>s. Inr (split_words [] s)), path_exists = ex, which = wh\<rparr>"

section \<open>The helper client\<close>

text \<open>
  A \<open>Popen\<close> object: the child's process id and the descriptors of the pipes to its
  standard input and from its standard output (\<open>None\<close> where there is no pipe).
\<close>

record popen =
  pid :: nat
  p_stdin :: "nat option"
  p_stdout :: "nat option"

text \<open>
  What the main process asks of the operating system, as functions on a state of the world
  \<open>'w\<close>: \<open>Path.unlink\<close>; the \<open>subprocess.Popen\<close> call of \<open>privilaged_subprocess\<close>;
  writing to and reading a line from a pipe; \<open>os.access\<close> for writing; the variable
  \<open>EDITOR\<close>; running a command and waiting for its exit status; and
  \<open>Path(location).relative_to(Path.home())\<close>, \<open>None\<close> when it raises \<open>ValueError\<close>.
\<close>

record 'w os =
  unlink :: "'w \<Rightarrow> string \<Rightarrow> py_error + 'w"
  popen_helper :: "'w \<Rightarrow> (py_error + popen) \<times> 'w"
  pipe_write :: "'w \<Rightarrow> nat \<Rightarrow> string \<Rightarrow> py_error + 'w"
  pipe_readline :: "'w \<Rightarrow> nat \<Rightarrow> string \<times> 'w"
  access_write :: "'w \<Rightarrow> string \<Rightarrow> bool"
  getenv_editor :: "'w \<Rightarrow> string option"
  run_and_wait :: "'w \<Rightarrow> string list \<Rightarrow> (py_error + int) \<times> 'w"
  relative_to_home :: "string \<Rightarrow> string option"

text \<open>
  The state of the main process: the world, the memo of the \<open>@cache\<close> decorator on
  \<open>privilaged_subprocess\<close>, the children that function has created so far, the messages
  logged at level \<open>ERROR\<close>, and the terminal (the bytes printed and the text still to be
  typed).
\<close>

record 'w client_state =
  c_world :: 'w
  c_cache :: "popen option"
  c_created :: "popen list"
  c_log :: "string list"
  c_stdout :: string
  c_stdin :: string

text \<open>
  \<open>privilaged_subprocess\<close> under \<open>@cache\<close>: the function has no arguments, so the memo
  holds at most one result; a call that raises stores nothing.
\<close>

definition privilaged_subprocess ::
  "'w os \<Rightarrow> 'w client_state \<Rightarrow> (py_error + popen) \<times> 'w client_state" where
  "privilaged_subprocess os st =
     (case c_cache st of
        Some p \<Rightarrow> (Inr p, st)
      | None \<Rightarrow>
          (case popen_helper os (c_world st) of
             (Inl e, w) \<Rightarrow> (Inl e, st\<lparr>c_world := w\<rparr>)
           | (Inr p, w) \<Rightarrow>
               (Inr p, st\<lparr>c_world := w, c_cache := Some p, c_created := c_created st @ [p]\<rparr>)))"

text \<open>
  The \<open>except PermissionError\<close> branch of \<open>remove_file\<close>. The result is Python's
  \<open>True\<close>, \<open>False\<close> or \<open>None\<close> (the function falls off its end when there is no output
  pipe).
\<close>

definition unlink_fallback ::
  "'w os \<Rightarrow> 'w client_state \<Rightarrow> string \<Rightarrow> (py_error + bool option) \<times> 'w client_state" where
  "unlink_fallback os st filename =
     (case privilaged_subprocess os st of
        (Inl e, st1) \<Rightarrow> (Inl e, st1)
      | (Inr p, st1) \<Rightarrow>
          let command = ''UNLINK '' @ filename;
              sent = (case p_stdin p of
                        None \<Rightarrow> Inr (c_world st1)
                      | Some fd \<Rightarrow> pipe_write os (c_world st1) fd (command @ [newline]))
          in (case sent of
                Inl e \<Rightarrow> (Inl e, st1)
              | Inr w2 \<Rightarrow>
                  (case p_stdout p of
                     None \<Rightarrow> (Inr None, st1\<lparr>c_world := w2\<rparr>)
                   | Some fd \<Rightarrow>
                       let (line, w3) = pipe_readline os w2 fd;
                           ret = strip line;
                           st3 = st1\<lparr>c_world := w3\<rparr>
                       in if \<not> endswith ret ''SUCCESS'' then
                            (Inr (Some False),
                             st3\<lparr>c_log := c_log st3 @ [''Failed to unlink file. '' @ ret]\<rparr>)
                          else (Inr (Some True), st3))))"

definition remove_file ::
  "'w os \<Rightarrow> 'w client_state \<Rightarrow> string \<Rightarrow> (py_error + bool option) \<times> 'w client_state" where
  "remove_file os st filename =
     (case unlink os (c_world st) filename of
        Inr w \<Rightarrow> (Inr (Some True), st\<lparr>c_world := w\<rparr>)
      | Inl e \<Rightarrow> if e = PermissionError then unlink_fallback os st filename else (Inl e, st))"


section \<open>The interactive remediator\<close>

definition print :: "string \<Rightarrow> 'w client_state \<Rightarrow> 'w client_state" where
  "print s st = st\<lparr>c_stdout := c_stdout st @ s @ [newline]\<rparr>"

text \<open>\<open>input(prompt)\<close>: the prompt is written, a line is read and loses its newline; at
  end of input \<open>EOFError\<close> is raised.\<close>

definition py_input :: "string \<Rightarrow> 'w client_state \<Rightarrow> (py_error + string) \<times> 'w client_state" where
  "py_input prompt st =
     (let st1 = st\<lparr>c_stdout := c_stdout st @ prompt\<rparr>;
          (line, rest) = readline (c_stdin st1)
      in if line = [] then (Inl EOFError, st1)
         else (Inr (if last line = newline then butlast line else line), st1\<lparr>c_stdin := rest\<rparr>))"

fun str_nat :: "nat \<Rightarrow> string" where
  "str_nat n =
     (if n < 10 then [''0123456789'' ! n] else str_nat (n div 10) @ [''0123456789'' ! (n mod 10)])"

definition str_opt :: "string option \<Rightarrow> string" where
  "str_opt v = (case v of None \<Rightarrow> ''None'' | Some s \<Rightarrow> s)"

text \<open>The box-drawing characters of the report, in UTF-8.\<close>

definition box_top :: string where
  "box_top = [CHR 0xE2, CHR 0x95, CHR 0xAD, CHR 0xE2, CHR 0x94, CHR 0x80]"

definition box_bar :: string where
  "box_bar = [CHR 0xE2, CHR 0x94, CHR 0x82]"

definition box_item :: string where
  "box_item = [CHR 0xE2, CHR 0x94, CHR 0x9C, CHR 0xE2, CHR 0x94, CHR 0x80]"

definition box_bottom :: string where
  "box_bottom = [CHR 0xE2, CHR 0x95, CHR 0xB0, CHR 0xE2, CHR 0x94, CHR 0x80]"

definition prompt_text :: string where
  "prompt_text = box_bottom @ '' [d]elete, [e]dit, [q]uit, or [i]gnore (default):''"

definition edit_file :: "'w os \<Rightarrow> 'w client_state \<Rightarrow> string \<Rightarrow> (py_error + int) \<times> 'w client_state" where
  "edit_file os st filename =
     (let args = [(case getenv_editor os (c_world st) of None \<Rightarrow> ''nano'' | Some ed \<Rightarrow> ed), filename];
          args = (if \<not> access_write os (c_world st) filename then ''pkexec'' # args else args);
          (r, w) = run_and_wait os (c_world st) args
      in (r, st\<lparr>c_world := w\<rparr>))"

text \<open>Lines 170 to 181: the report block of one entry.\<close>

definition print_report :: "'w os \<Rightarrow> Entry \<Rightarrow> 'w client_state \<Rightarrow> 'w client_state" where
  "print_report os entry st =
     (let st = print [] st;
          st = (case relative_to_home os (location entry) of
                  Some rel \<Rightarrow> print (box_top @ '' ~/'' @ rel) st
                | None \<Rightarrow> print (box_top @ '' '' @ location entry) st);
          st = print box_bar st;
          st = (if full_exec entry \<noteq> None
                then print (box_item @ '' Exec String '' @ str_opt (full_exec entry)) st else st);
          st = (if full_exec entry \<noteq> exec entry
                then print (box_item @ '' Executable  '' @ str_opt (exec entry)) st else st);
          st = print (box_item @ '' Problem     '' @ str_opt (reason entry)) st
      in print box_bar st)"

text \<open>
  The \<open>for\<close> loop of \<open>find_and_fix\<close>, with the two counters. It ends at the end of the
  list or at \<open>break\<close> with the counters, or with an exception that nothing catches.
\<close>

fun fix_loop ::
  "'w os \<Rightarrow> Entry list \<Rightarrow> nat \<Rightarrow> nat \<Rightarrow> 'w client_state
     \<Rightarrow> (py_error + nat \<times> nat) \<times> 'w client_state" where
  "fix_loop os [] delete_count edit_count st = (Inr (delete_count, edit_count), st)"
| "fix_loop os (entry # entries) delete_count edit_count st =
     (case py_input prompt_text (print_report os entry st) of
        (Inl e, st1) \<Rightarrow> (Inl e, st1)
      | (Inr answer, st1) \<Rightarrow>
          let resp = lower answer
          in if resp \<in> set [''q'', ''quit''] then (Inr (delete_count, edit_count), st1)
             else if resp \<in> set [''e'', ''edit''] then
               (case edit_file os st1 (location entry) of
                  (Inl e, st2) \<Rightarrow> (Inl e, st2)
                | (Inr rc, st2) \<Rightarrow>
                    fix_loop os entries delete_count
                      (if rc = 0 then edit_count + 1 else edit_count) st2)
             else if resp \<in> set [''d'', ''delete''] then
               (case remove_file os st1 (location entry) of
                  (Inl e, st2) \<Rightarrow> (Inl e, st2)
                | (Inr removed, st2) \<Rightarrow>
                    fix_loop os entries
                      (if removed = Some True then delete_count + 1 else delete_count)
                      edit_count st2)
             else fix_loop os entries delete_count edit_count st1)"

text \<open>Lines 192 to 198: what is printed after the loop.\<close>

definition print_totals :: "nat \<Rightarrow> nat \<Rightarrow> nat \<Rightarrow> 'w client_state \<Rightarrow> 'w client_state" where
  "print_totals found delete_count edit_count st =
     (let st = print [] st;
          st = print (str_nat found @ '' potentially bad .desktop files were found.'') st;
          st = (if delete_count > 0 then print (str_nat delete_count @ '' deleted.'') st else st);
          st = (if edit_count > 0 then print (str_nat edit_count @ '' edited.'') st else st)
      in print [] st)"

definition find_and_fix ::
  "'w os \<Rightarrow> scan_os \<Rightarrow> desktop_file list \<Rightarrow> 'w client_state \<Rightarrow> (py_error + unit) \<times> 'w client_state" where
  "find_and_fix os sos files st =
     (case find_broken_desktop_files sos files of
        Inl e \<Rightarrow> (Inl e, st)
      | Inr entries \<Rightarrow>
          if length entries = 0 then (Inr (), print ''No broken .desktop files were found.'' st)
          else
            (case fix_loop os entries 0 0 st of
               (Inl e, st1) \<Rightarrow> (Inl e, st1)
             | (Inr (delete_count, edit_count), st1) \<Rightarrow>
                 (Inr (), print_totals (length entries) delete_count edit_count st1)))"

text \<open>
  A world to run the main process in: the small file system together with one helper
  process. The main process unlinks without privileges; a write to the pipe adds to the
  helper's input; reading a line from the pipe lets the helper, which unlinks with
  privileges, do one iteration and hands over what it wrote (nothing, when an exception
  ended it). Every file is outside the home directory, the variable \<open>EDITOR\<close> is not set
  and every command run exits with status 0.
\<close>

definition demo_os :: "(string \<rightharpoonup> node) helper_state os" where
  "demo_os =
     \<lparr>unlink = (\<lambda>w p. case fs_unlink False (h_fs w) p of
                          Inl e \<Rightarrow> Inl e
                        | Inr fs \<Rightarrow> Inr (w\<lparr>h_fs := fs\<rparr>)),
      popen_helper = (\<lambda>w. (Inr \<lparr>pid = 4242, p_stdin = Some 5, p_stdout = Some 6\<rparr>, w)),
      pipe_write = (\<lambda>w fd s. Inr (w\<lparr>h_stdin := h_stdin w @ s\<rparr>)),
      pipe_readline = (\<lambda>w fd. case helper_step (fs_unlink True) w of
                                  Inl (e, w') \<Rightarrow> ([], w')
                                | Inr w' \<Rightarrow> (drop (length (h_stdout w)) (h_stdout w'), w')),
      access_write = (\<lambda>w p. h_fs w p = Some (File True)),
      getenv_editor = (\<lambda>w. None),
      run_and_wait = (\<lambda>w args. (Inr 0, w)),
      relative_to_home = (\<lambda>p. None)\<rparr>"

definition demo_state :: "(string \<rightharpoonup> node) \<Rightarrow> string \<Rightarrow> (string \<rightharpoonup> node) helper_state client_state" where
  "demo_state fs typed =
     \<lparr>c_world = \<lparr>h_stdin = [], h_stdout = [], h_fs = fs, h_unlinked = []\<rparr>,
      c_cache = None, c_created = [], c_log = [], c_stdout = [], c_stdin = typed\<rparr>"

text \<open>
  A world in which the other end of the pipe answers with a given text, whatever is sent:
  the state of the world is the text still to come. No file can be removed without
  privileges.
\<close>

definition scripted_os :: "string os" where
  "scripted_os =
     \<lparr>unlink = (\<lambda>w p. Inl PermissionError),
      popen_helper = (\<lambda>w. (Inr \<lparr>pid = 4242, p_stdin = Some 5, p_stdout = Some 6\<rparr>, w)),
      pipe_write = (\<lambda>w fd s. Inr w),
      pipe_readline = (\<lambda>w fd. readline w),
      access_write = (\<lambda>w p. False),
      getenv_editor = (\<lambda>w. None),
      run_and_wait = (\<lambda>w args. (Inr 0, w)),
      relative_to_home = (\<lambda>p. None)\<rparr>"

section \<open>Properties of the text primitives\<close>

lemmas strip_eval = strip_def space1_def space2_def space3_def

lemma set_strip_front: "set (strip_front bw s) \<subseteq> set s"
  by (induction bw s rule: strip_front.induct) auto

lemma set_strip_subset: "set (strip s) \<subseteq> set s"
proof -
  have "set (strip s) = set (strip_front True (rev (strip_front False s)))"
    by (simp add: strip_def)
  also have "\<dots> \<subseteq> set (rev (strip_front False s))"
    by (rule set_strip_front)
  also have "\<dots> \<subseteq> set s"
    using set_strip_front [of False s] by simp
  finally show ?thesis .
qed

text \<open>A no-break space, U+00A0, before the newline is stripped with it.\<close>

lemma strip_no_break_space:
  "strip (''UNLINK /d/x.desktop'' @ [CHR 0xC2, CHR 0xA0, CHR 0x0A]) = ''UNLINK /d/x.desktop''"
  by (simp add: strip_eval)

lemma split_first_space_unlink:
  "split_first_space (''UNLINK '' @ entry) = (''UNLINK'', entry)"
  by (simp add: split_first_space_def space_def)

lemma space_in_unlink: "space \<in> set (''UNLINK '' @ entry)"
  by (simp add: space_def)

lemma readline_line:
  "newline \<notin> set l \<Longrightarrow> readline (l @ newline # rest) = (l @ [newline], rest)"
proof -
  assume n: "newline \<notin> set l"
  have d: "dropWhile (\<lambda>c. c \<noteq> newline) (l @ newline # rest) = newline # rest"
    using n by (subst dropWhile_append2) auto
  have t: "takeWhile (\<lambda>c. c \<noteq> newline) (l @ newline # rest) = l"
    using n by (subst takeWhile_append2) auto
  show ?thesis
    unfolding readline_def d t by simp
qed

section \<open>The helper's protocol\<close>

text \<open>
  Claim C2. When the line read, stripped as line 87 strips it of every character that
  Python counts as white space, is \<open>UNLINK\<close>, one space and an argument that does not
  end with \<open>.desktop\<close>, the iteration writes exactly
  \<open>ERR Must be a .desktop file.\<close> and a newline, changes nothing else (the file system and
  the list of unlink requests made to the operating system are as before, so no deletion
  was attempted), and the loop goes on from the rest of the input.
\<close>

theorem helper_rejects_non_desktop:
  assumes "readline (h_stdin st) = (line, rest)"
    and "strip line = ''UNLINK '' @ entry"
    and "\<not> endswith entry ''.desktop''"
  shows "helper_step os_unlink st =
           Inr (st\<lparr>h_stdin := rest,
                   h_stdout := h_stdout st @ ''ERR Must be a .desktop file.'' @ [CHR 0x0A]\<rparr>)
         \<and> start_privilaged os_unlink st =
           start_privilaged os_unlink
             (st\<lparr>h_stdin := rest,
                 h_stdout := h_stdout st @ ''ERR Must be a .desktop file.'' @ [CHR 0x0A]\<rparr>)"
proof -
  have step: "helper_step os_unlink st =
           Inr (st\<lparr>h_stdin := rest,
                   h_stdout := h_stdout st @ ''ERR Must be a .desktop file.'' @ [CHR 0x0A]\<rparr>)"
    using assms
    by (simp add: helper_step_def Let_def split_first_space_unlink [simplified]
        space_in_unlink [simplified] write_stdout_def not_desktop_message_def newline_def)
  show ?thesis
    using step by (subst start_privilaged.simps) simp
qed

theorem helper_rejects_non_desktop_witness:
  "readline (''UNLINK /tmp/notes.txt'' @ [CHR 0x0A] @ ''UNLINK /tmp/b.txt'')
     = (''UNLINK /tmp/notes.txt'' @ [CHR 0x0A], ''UNLINK /tmp/b.txt'')
   \<and> strip (''UNLINK /tmp/notes.txt'' @ [CHR 0x0A]) = ''UNLINK '' @ ''/tmp/notes.txt''
   \<and> \<not> endswith ''/tmp/notes.txt'' ''.desktop''
   \<and> helper_step (fs_unlink True)
         \<lparr>h_stdin = ''UNLINK /tmp/notes.txt'' @ [CHR 0x0A] @ ''UNLINK /tmp/b.txt'',
          h_stdout = [], h_fs = [''/tmp/notes.txt'' \<mapsto> File True], h_unlinked = []\<rparr>
     = Inr \<lparr>h_stdin = ''UNLINK /tmp/b.txt'',
            h_stdout = ''ERR Must be a .desktop file.'' @ [CHR 0x0A],
            h_fs = [''/tmp/notes.txt'' \<mapsto> File True], h_unlinked = []\<rparr>"
proof -
  have r: "readline (h_stdin
         \<lparr>h_stdin = ''UNLINK /tmp/notes.txt'' @ [CHR 0x0A] @ ''UNLINK /tmp/b.txt'',
          h_stdout = [], h_fs = [''/tmp/notes.txt'' \<mapsto> File True], h_unlinked = []\<rparr>)
     = (''UNLINK /tmp/notes.txt'' @ [CHR 0x0A], ''UNLINK /tmp/b.txt'')"
    by (simp add: readline_def newline_def)
  have s: "strip (''UNLINK /tmp/notes.txt'' @ [CHR 0x0A]) = ''UNLINK '' @ ''/tmp/notes.txt''"
    by (simp add: strip_def space1_def space2_def space3_def)
  have e: "\<not> endswith ''/tmp/notes.txt'' ''.desktop''"
    by (simp add: endswith_def)
  from helper_rejects_non_desktop [OF r s e, of "fs_unlink True"] r s e
  show ?thesis by simp
qed

text \<open>
  Claim C3, as the code has it. When the line read contains no space character, the
  iteration writes the usage message, changes nothing else, and the loop goes on from the
  rest of the input. The message is the text \<open>Must be in the form '[CMD] ...\n'\<close> and a
  newline: the source's string literal has an escaped backslash, so the two characters
  backslash and \<open>n\<close> stand before the closing quote of the message.
\<close>

theorem helper_usage_on_line_without_space:
  assumes "readline (h_stdin st) = (line, rest)"
    and "CHR '' '' \<notin> set line"
  shows "helper_step os_unlink st =
           Inr (st\<lparr>h_stdin := rest,
                   h_stdout := h_stdout st @ ''Must be in the form '' @ [CHR 0x27]
                       @ ''[CMD] ...'' @ [CHR 0x5C, CHR ''n'', CHR 0x27, CHR 0x0A]\<rparr>)
         \<and> start_privilaged os_unlink st =
           start_privilaged os_unlink
             (st\<lparr>h_stdin := rest,
                 h_stdout := h_stdout st @ ''Must be in the form '' @ [CHR 0x27]
                       @ ''[CMD] ...'' @ [CHR 0x5C, CHR ''n'', CHR 0x27, CHR 0x0A]\<rparr>)"
proof -
  have "space \<notin> set (strip line)"
    using assms(2) set_strip_subset [of line] by (auto simp: space_def)
  then have step: "helper_step os_unlink st =
           Inr (st\<lparr>h_stdin := rest,
                   h_stdout := h_stdout st @ ''Must be in the form '' @ [CHR 0x27]
                       @ ''[CMD] ...'' @ [CHR 0x5C, CHR ''n'', CHR 0x27, CHR 0x0A]\<rparr>)"
    using assms(1)
    by (simp add: helper_step_def Let_def write_stdout_def usage_message_def
        squote_def backslash_def newline_def)
  show ?thesis
    using step by (subst start_privilaged.simps) simp
qed

theorem helper_usage_on_line_without_space_witness:
  "readline (''hello'' @ [CHR 0x0A] @ ''next'') = (''hello'' @ [CHR 0x0A], ''next'')
   \<and> CHR '' '' \<notin> set (''hello'' @ [CHR 0x0A])
   \<and> helper_step (fs_unlink True)
         \<lparr>h_stdin = ''hello'' @ [CHR 0x0A] @ ''next'', h_stdout = [],
          h_fs = Map.empty, h_unlinked = []\<rparr>
     = Inr \<lparr>h_stdin = ''next'',
            h_stdout = ''Must be in the form '' @ [CHR 0x27] @ ''[CMD] ...''
                         @ [CHR 0x5C, CHR ''n'', CHR 0x27, CHR 0x0A],
            h_fs = Map.empty, h_unlinked = []\<rparr>"
proof -
  have r: "readline (h_stdin
         \<lparr>h_stdin = ''hello'' @ [CHR 0x0A] @ ''next'', h_stdout = [],
          h_fs = Map.empty :: string \<rightharpoonup> node, h_unlinked = []\<rparr>)
       = (''hello'' @ [CHR 0x0A], ''next'')"
    by (simp add: readline_def newline_def)
  have n: "CHR '' '' \<notin> set (''hello'' @ [CHR 0x0A])"
    by simp
  from helper_usage_on_line_without_space [OF r n, of "fs_unlink True"] r n
  show ?thesis by simp
qed

text \<open>
  The usage message is not the text \<open>Must be in the form '[CMD] ...'\<close> followed by a
  newline: on the input line \<open>hello\<close> the helper writes two more characters.
\<close>

theorem helper_usage_text_counterexample:
  "helper_step (fs_unlink True)
      \<lparr>h_stdin = ''hello'' @ [CHR 0x0A], h_stdout = [], h_fs = Map.empty, h_unlinked = []\<rparr>
     = Inr \<lparr>h_stdin = [],
            h_stdout = ''Must be in the form '' @ [CHR 0x27] @ ''[CMD] ...''
                         @ [CHR 0x5C, CHR ''n'', CHR 0x27, CHR 0x0A],
            h_fs = Map.empty, h_unlinked = []\<rparr>
   \<and> ''Must be in the form '' @ [CHR 0x27] @ ''[CMD] ...'' @ [CHR 0x5C, CHR ''n'', CHR 0x27, CHR 0x0A]
       \<noteq> ''Must be in the form '' @ [CHR 0x27] @ ''[CMD] ...'' @ [CHR 0x27, CHR 0x0A]"
  by (simp add: helper_step_def readline_def strip_def space1_def space2_def space3_def newline_def space_def
      write_stdout_def usage_message_def squote_def backslash_def)

text \<open>
  Claim C9. When the line read is a well-formed \<open>UNLINK\<close> request for a path ending in
  \<open>.desktop\<close> and the operating system's unlink raises, the exception leaves the iteration
  and the loop: the helper stops with that error, and its standard output is what it was
  before the request, so no response line was written.
\<close>

theorem helper_unlink_error_is_fatal:
  assumes "readline (h_stdin st) = (line, rest)"
    and "strip line = ''UNLINK '' @ entry"
    and "endswith entry ''.desktop''"
    and "os_unlink (h_fs st) entry = Inl e"
  shows "helper_step os_unlink st =
           Inl (e, st\<lparr>h_stdin := rest, h_unlinked := h_unlinked st @ [entry]\<rparr>)
         \<and> start_privilaged os_unlink st =
           Some (e, st\<lparr>h_stdin := rest, h_unlinked := h_unlinked st @ [entry]\<rparr>)
         \<and> h_stdout (st\<lparr>h_stdin := rest, h_unlinked := h_unlinked st @ [entry]\<rparr>) = h_stdout st"
proof -
  have step: "helper_step os_unlink st =
           Inl (e, st\<lparr>h_stdin := rest, h_unlinked := h_unlinked st @ [entry]\<rparr>)"
    using assms
    by (simp add: helper_step_def Let_def split_first_space_unlink [simplified]
        space_in_unlink [simplified])
  show ?thesis
    using step by (subst start_privilaged.simps) simp
qed

theorem helper_unlink_error_is_fatal_witness:
  "readline (''UNLINK /usr/share/applications/gone.desktop'' @ [CHR 0x0A] @ ''UNLINK /a.desktop'')
     = (''UNLINK /usr/share/applications/gone.desktop'' @ [CHR 0x0A], ''UNLINK /a.desktop'')
   \<and> strip (''UNLINK /usr/share/applications/gone.desktop'' @ [CHR 0x0A])
       = ''UNLINK '' @ ''/usr/share/applications/gone.desktop''
   \<and> endswith ''/usr/share/applications/gone.desktop'' ''.desktop''
   \<and> fs_unlink True Map.empty ''/usr/share/applications/gone.desktop'' = Inl FileNotFoundError
   \<and> start_privilaged (fs_unlink True)
         \<lparr>h_stdin = ''UNLINK /usr/share/applications/gone.desktop'' @ [CHR 0x0A] @ ''UNLINK /a.desktop'',
          h_stdout = [], h_fs = Map.empty, h_unlinked = []\<rparr>
     = Some (FileNotFoundError,
           \<lparr>h_stdin = ''UNLINK /a.desktop'', h_stdout = [], h_fs = Map.empty,
            h_unlinked = [''/usr/share/applications/gone.desktop'']\<rparr>)"
proof -
  let ?st = "\<lparr>h_stdin = ''UNLINK /usr/share/applications/gone.desktop'' @ [CHR 0x0A] @ ''UNLINK /a.desktop'',
          h_stdout = [], h_fs = Map.empty :: string \<rightharpoonup> node, h_unlinked = []\<rparr>"
  have r: "readline (h_stdin ?st)
     = (''UNLINK /usr/share/applications/gone.desktop'' @ [CHR 0x0A], ''UNLINK /a.desktop'')"
    by (simp add: readline_def newline_def)
  have s: "strip (''UNLINK /usr/share/applications/gone.desktop'' @ [CHR 0x0A])
       = ''UNLINK '' @ ''/usr/share/applications/gone.desktop''"
    by (simp add: strip_def space1_def space2_def space3_def)
  have e: "endswith ''/usr/share/applications/gone.desktop'' ''.desktop''"
    by (simp add: endswith_def)
  have u: "fs_unlink True (h_fs ?st) ''/usr/share/applications/gone.desktop'' = Inl FileNotFoundError"
    by (simp add: fs_unlink_def)
  from helper_unlink_error_is_fatal [where os_unlink = "fs_unlink True", OF r s e u] r s e u
  show ?thesis by simp
qed

text \<open>
  A request whose path is followed by a no-break space: line 87 strips it with the newline,
  the path ends with \<open>.desktop\<close>, and the file is removed.
\<close>

lemma helper_strips_no_break_space:
  "helper_step (fs_unlink True)
      \<lparr>h_stdin = ''UNLINK /d/x.desktop'' @ [CHR 0xC2, CHR 0xA0, CHR 0x0A], h_stdout = [],
       h_fs = [''/d/x.desktop'' \<mapsto> File False], h_unlinked = []\<rparr>
     = Inr \<lparr>h_stdin = [], h_stdout = ''UNLINK /d/x.desktop SUCCESS'' @ [CHR 0x0A],
            h_fs = [''/d/x.desktop'' \<mapsto> File False](''/d/x.desktop'' := None),
            h_unlinked = [''/d/x.desktop'']\<rparr>"
  by (simp add: helper_step_def readline_def strip_eval split_first_space_def endswith_def
      fs_unlink_def write_stdout_def success_message_def newline_def space_def)

section \<open>The scanner's classification\<close>

text \<open>
  Claim C6. For a token list whose first token is \<open>env\<close> in any letter case, the resolved
  executable is the first of the following tokens that has no \<open>=\<close> in it: the tokens
  \<open>pre\<close> before it all contain one. For a token list whose first token is not \<open>env\<close>,
  it is the first token.
\<close>

theorem resolve_exec_env_prefix:
  "(lower c0 = ''env'' \<and> (\<forall>t \<in> set pre. CHR ''='' \<in> set t) \<and> CHR ''='' \<notin> set x
      \<longrightarrow> resolve_exec (c0 # pre @ x # post) = Inr x)
   \<and> (lower c0 \<noteq> ''env'' \<longrightarrow> resolve_exec (c0 # rest) = Inr c0)"
proof -
  have "filter (\<lambda>c. CHR ''='' \<notin> set c) (pre @ x # post) = x # filter (\<lambda>c. CHR ''='' \<notin> set c) post"
    if "\<forall>t \<in> set pre. CHR ''='' \<in> set t" and "CHR ''='' \<notin> set x"
    using that by (induction pre) auto
  then show ?thesis
    by (simp add: resolve_exec_def)
qed

text \<open>The token lists of \<open>env FOO=bar /path/to/real --opt=1\<close> and of \<open>firefox %u\<close>.\<close>

theorem resolve_exec_env_prefix_witness:
  "lower ''env'' = ''env''
   \<and> CHR ''='' \<in> set ''FOO=bar'' \<and> CHR ''='' \<notin> set ''/path/to/real''
   \<and> resolve_exec [''env'', ''FOO=bar'', ''/path/to/real'', ''--opt=1''] = Inr ''/path/to/real''
   \<and> lower ''firefox'' \<noteq> ''env''
   \<and> resolve_exec [''firefox'', ''%u''] = Inr ''firefox''"
  using resolve_exec_env_prefix [of "''env''" "[''FOO=bar'']" "''/path/to/real''" "[''--opt=1'']"]
    resolve_exec_env_prefix [of "''firefox''" "[]" "[]" "[]" "[''%u'']"]
  by (simp add: lower_def lower_char_def)

text \<open>
  Claim C10. A file that parses and has an \<open>Exec\<close> value whose token list is empty, or
  starts with \<open>env\<close> and has an \<open>=\<close> in every later token, makes the indexing of lines
  65 and 66 raise \<open>IndexError\<close>. Neither \<open>except\<close> clause catches it: the iteration raises,
  and so does the scan, whatever the parser held before, whatever was found broken so far
  and whatever files were still to come.
\<close>

theorem degenerate_exec_aborts_scan:
  assumes "f_error f = None"
    and "get_exec (config_read cfg (f_sections f)) = Inr v"
    and "shlex_split os (strip v) = Inr command"
    and "command = [] \<or> (lower (hd command) = ''env'' \<and> (\<forall>t \<in> set (tl command). CHR ''='' \<in> set t))"
  shows "resolve_exec command = Inl IndexError
         \<and> scan_file os cfg f = Inl IndexError
         \<and> scan_files os cfg (f # fs) broken = Inl IndexError"
proof -
  have r: "resolve_exec command = Inl IndexError"
  proof (cases command)
    case Nil
    then show ?thesis by (simp add: resolve_exec_def)
  next
    case (Cons c0 rest)
    with assms(4) have "lower c0 = ''env''" and "\<forall>t \<in> set rest. CHR ''='' \<in> set t"
      by auto
    then have "filter (\<lambda>c. CHR ''='' \<notin> set c) rest = []"
      by (simp add: filter_empty_conv)
    with Cons \<open>lower c0 = ''env''\<close> show ?thesis
      by (simp add: resolve_exec_def)
  qed
  have s: "scan_file os cfg f = Inl IndexError"
    using assms(1-3) r by (simp add: scan_file_def classify_def Let_def)
  show ?thesis
    using r s by simp
qed


lemmas scan_eval = find_broken_desktop_files_def scan_file_def classify_def Let_def
     config_read_def add_options_def get_exec_def plain_os_def strip_def space1_def space2_def space3_def
     resolve_exec_def new_entry_def startswith_def first_line_def

text \<open>A desktop file with the line \<open>Exec=\<close>, followed by a healthy one.\<close>

theorem degenerate_exec_aborts_scan_witness:
  "f_error \<lparr>f_location = ''/usr/share/applications/empty.desktop'',
        f_sections = [(''Desktop Entry'', [(''name'', ''Empty''), (''exec'', [])])],
        f_error = None\<rparr> = None
   \<and> get_exec (config_read Map.empty
         [(''Desktop Entry'', [(''name'', ''Empty''), (''exec'', [])])]) = Inr []
   \<and> shlex_split (plain_os (\<lambda>p. True) (\<lambda>p. Some p)) (strip []) = Inr []
   \<and> scan_files (plain_os (\<lambda>p. True) (\<lambda>p. Some p)) Map.empty
        [\<lparr>f_location = ''/usr/share/applications/empty.desktop'',
          f_sections = [(''Desktop Entry'', [(''name'', ''Empty''), (''exec'', [])])],
          f_error = None\<rparr>,
         \<lparr>f_location = ''/usr/share/applications/other.desktop'',
          f_sections = [(''Desktop Entry'', [(''exec'', ''/bin/true'')])],
          f_error = None\<rparr>] [] = Inl IndexError"
proof -
  let ?f = "\<lparr>f_location = ''/usr/share/applications/empty.desktop'',
        f_sections = [(''Desktop Entry'', [(''name'', ''Empty''), (''exec'', [])])],
        f_error = None\<rparr>"
  let ?os = "plain_os (\<lambda>p. True) (\<lambda>p. Some p)"
  have a: "f_error ?f = None" by simp
  have b: "get_exec (config_read Map.empty (f_sections ?f)) = Inr []"
    by (simp add: config_read_def add_options_def get_exec_def lower_def lower_char_def)
  have c: "shlex_split ?os (strip []) = Inr []"
    by (simp add: plain_os_def strip_def)
  have d: "[] = [] \<or> (lower (hd []) = ''env'' \<and> (\<forall>t \<in> set (tl []). CHR ''='' \<in> set t))"
    by simp
  from degenerate_exec_aborts_scan [where os = "?os", OF a b c d] a b c
  show ?thesis by simp
qed

text \<open>
  What lines 70 to 73 do with a token that starts with a slash or a tilde: the entry is
  appended to \<open>broken\<close> exactly when \<open>os.path.exists\<close> denies the token as it is
  written.
\<close>

lemma classify_path_token:
  assumes "get_exec cfg = Inr v"
    and "shlex_split os (strip v) = Inr command"
    and "resolve_exec command = Inr x"
    and "startswith x ''/'' \<or> startswith x ''~''"
  shows "map_sum fst snd (classify os cfg entry) = Inr (\<not> path_exists os x)"
  using assms by (simp add: classify_def Let_def)

text \<open>
  Claim C4 on a token that starts with a tilde. The home directory is \<open>/home/u\<close> and the
  file \<open>/home/u/bin/tool\<close> exists, so the expanded form of \<open>~/bin/tool\<close> exists; line 71
  asks \<open>os.path.exists\<close> about the token as written, and the entry is reported with the
  reason "Executable does not exist.".
\<close>

theorem tilde_exec_checked_unexpanded:
  "expanduser ''/home/u'' (\<lambda>name. None) ''~/bin/tool'' = ''/home/u/bin/tool''
   \<and> path_exists (plain_os (\<lambda>p. p = ''/home/u/bin/tool'') (\<lambda>p. None)) ''/home/u/bin/tool''
   \<and> find_broken_desktop_files (plain_os (\<lambda>p. p = ''/home/u/bin/tool'') (\<lambda>p. None))
        [\<lparr>f_location = ''/usr/share/applications/tool.desktop'',
          f_sections = [(''Desktop Entry'', [(''exec'', ''~/bin/tool --start'')])],
          f_error = None\<rparr>]
     = Inr [\<lparr>location = ''/usr/share/applications/tool.desktop'',
             reason = Some ''Executable does not exist.'',
             exec = Some ''~/bin/tool'',
             full_exec = Some ''~/bin/tool --start''\<rparr>]"
  by (simp add: scan_eval expanduser_def rstrip_slash_def lower_def lower_char_def)

text \<open>
  What lines 80 to 82 do when the lookup of line 62 raises \<open>KeyError\<close> on the parser as
  it is after reading the file.
\<close>

lemma scan_file_key_error:
  assumes "f_error f = None"
    and "get_exec (config_read cfg (f_sections f)) = Inl KeyError"
  shows "scan_file os cfg f =
           Inr (config_read cfg (f_sections f),
                [(new_entry (f_location f))
                   \<lparr>reason := Some ''No [Desktop Entry].Exec entry found.''\<rparr>])"
  using assms by (simp add: scan_file_def classify_def Let_def)

text \<open>
  Claim C5 on two files. \<open>b.desktop\<close> has a \<open>Desktop Entry\<close> section without \<open>Exec\<close>.
  Scanned alone it is reported with the reason "No [Desktop Entry].Exec entry found.".
  Scanned after \<open>a.desktop\<close>, whose \<open>Exec\<close> is an existing file, it is not reported at
  all: the parser of line 56 still holds the section read from \<open>a.desktop\<close>, and line 62
  finds that file's \<open>Exec\<close>.
\<close>

theorem missing_exec_inherits_earlier_file:
  "find_broken_desktop_files (plain_os (\<lambda>p. p = ''/bin/true'') (\<lambda>p. None))
        [\<lparr>f_location = ''/usr/share/applications/b.desktop'',
          f_sections = [(''Desktop Entry'', [(''name'', ''B'')])],
          f_error = None\<rparr>]
     = Inr [\<lparr>location = ''/usr/share/applications/b.desktop'',
             reason = Some ''No [Desktop Entry].Exec entry found.'',
             exec = None, full_exec = None\<rparr>]
   \<and> find_broken_desktop_files (plain_os (\<lambda>p. p = ''/bin/true'') (\<lambda>p. None))
        [\<lparr>f_location = ''/usr/share/applications/a.desktop'',
          f_sections = [(''Desktop Entry'', [(''name'', ''A''), (''exec'', ''/bin/true'')])],
          f_error = None\<rparr>,
         \<lparr>f_location = ''/usr/share/applications/b.desktop'',
          f_sections = [(''Desktop Entry'', [(''name'', ''B'')])],
          f_error = None\<rparr>]
     = Inr []"
  by (simp add: scan_eval lower_def lower_char_def)

section \<open>The helper client and the remediator\<close>

lemma endswith_append: "endswith (a @ p) p"
  by (simp add: endswith_def)

text \<open>
  Claim C1, as the code has it. In the fallback of \<open>remove_file\<close>, with the helper's
  handle \<open>p\<close> and its two pipes: once \<open>UNLINK\<close>, a space, the path and a newline have
  been written to the input pipe, one line is read from the output pipe (the world after
  the call is the world after that one \<open>readline\<close>), and the result is \<open>True\<close> when
  that line ends with \<open>SUCCESS\<close> and \<open>False\<close> when it does not. The line is compared as
  line 154 leaves it, stripped of the newline that ends it and of every character around
  it that Python counts as white space. The line that the helper writes after a deletion,
  \<open>UNLINK\<close>, the entry and \<open>SUCCESS\<close>, is one that ends with \<open>SUCCESS\<close>.
\<close>

theorem unlink_fallback_result:
  assumes "privilaged_subprocess os st = (Inr p, st1)"
    and "p_stdin p = Some fin"
    and "p_stdout p = Some fout"
    and "pipe_write os (c_world st1) fin (''UNLINK '' @ filename @ [CHR 0x0A]) = Inr w2"
    and "pipe_readline os w2 fout = (line, w3)"
  shows "fst (unlink_fallback os st filename) = Inr (Some (endswith (strip line) ''SUCCESS''))
         \<and> c_world (snd (unlink_fallback os st filename)) = w3
         \<and> endswith (strip (''UNLINK '' @ entry @ '' SUCCESS'' @ [CHR 0x0A])) ''SUCCESS''"
proof -
  have a: "fst (unlink_fallback os st filename) = Inr (Some (endswith (strip line) ''SUCCESS''))"
    using assms by (simp add: unlink_fallback_def Let_def newline_def)
  have b: "c_world (snd (unlink_fallback os st filename)) = w3"
    using assms by (simp add: unlink_fallback_def Let_def newline_def)
  have eq: "strip (''UNLINK '' @ entry @ '' SUCCESS'' @ [CHR 0x0A])
              = (''UNLINK '' @ entry @ '' '') @ ''SUCCESS''"
    by (simp add: strip_def space1_def space2_def space3_def)
  have c: "endswith (strip (''UNLINK '' @ entry @ '' SUCCESS'' @ [CHR 0x0A])) ''SUCCESS''"
    by (subst eq) (rule endswith_append)
  from a b c show ?thesis by simp
qed

lemmas demo_eval = demo_os_def demo_state_def privilaged_subprocess_def helper_step_def
  readline_def strip_def space1_def space2_def space3_def split_first_space_def endswith_def fs_unlink_def
  write_stdout_def success_message_def not_desktop_message_def newline_def space_def Let_def

text \<open>The file \<open>/a/x.desktop\<close>, which only a privileged process may remove, and the
  helper of the demonstration world answering the request.\<close>

theorem unlink_fallback_result_witness:
  "privilaged_subprocess demo_os (demo_state [''/a/x.desktop'' \<mapsto> File False] [])
     = (Inr \<lparr>pid = 4242, p_stdin = Some 5, p_stdout = Some 6\<rparr>,
        (demo_state [''/a/x.desktop'' \<mapsto> File False] [])
          \<lparr>c_cache := Some \<lparr>pid = 4242, p_stdin = Some 5, p_stdout = Some 6\<rparr>,
           c_created := [\<lparr>pid = 4242, p_stdin = Some 5, p_stdout = Some 6\<rparr>]\<rparr>)
   \<and> pipe_write demo_os
        \<lparr>h_stdin = [], h_stdout = [], h_fs = [''/a/x.desktop'' \<mapsto> File False], h_unlinked = []\<rparr>
        5 (''UNLINK '' @ ''/a/x.desktop'' @ [CHR 0x0A])
     = Inr \<lparr>h_stdin = ''UNLINK /a/x.desktop'' @ [CHR 0x0A], h_stdout = [],
            h_fs = [''/a/x.desktop'' \<mapsto> File False], h_unlinked = []\<rparr>
   \<and> fst (pipe_readline demo_os
        \<lparr>h_stdin = ''UNLINK /a/x.desktop'' @ [CHR 0x0A], h_stdout = [],
         h_fs = [''/a/x.desktop'' \<mapsto> File False], h_unlinked = []\<rparr> 6)
     = ''UNLINK /a/x.desktop SUCCESS'' @ [CHR 0x0A]
   \<and> fst (unlink_fallback demo_os (demo_state [''/a/x.desktop'' \<mapsto> File False] [])
          ''/a/x.desktop'') = Inr (Some True)"
proof -
  let ?p = "\<lparr>pid = 4242, p_stdin = Some 5, p_stdout = Some 6\<rparr>"
  let ?st = "demo_state [''/a/x.desktop'' \<mapsto> File False] []"
  let ?st1 = "?st\<lparr>c_cache := Some ?p, c_created := [?p]\<rparr>"
  let ?w2 = "\<lparr>h_stdin = ''UNLINK /a/x.desktop'' @ [CHR 0x0A], h_stdout = [],
            h_fs = [''/a/x.desktop'' \<mapsto> File False], h_unlinked = []\<rparr>"
  have a: "privilaged_subprocess demo_os ?st = (Inr ?p, ?st1)"
    by (simp add: demo_os_def demo_state_def privilaged_subprocess_def)
  have b: "p_stdin ?p = Some 5" and c: "p_stdout ?p = Some 6"
    by simp_all
  have d: "pipe_write demo_os (c_world ?st1) 5 (''UNLINK '' @ ''/a/x.desktop'' @ [CHR 0x0A]) = Inr ?w2"
    by (simp add: demo_os_def demo_state_def)
  have l: "fst (pipe_readline demo_os ?w2 6) = ''UNLINK /a/x.desktop SUCCESS'' @ [CHR 0x0A]"
    by (simp add: demo_eval)
  have e: "pipe_readline demo_os ?w2 6
             = (''UNLINK /a/x.desktop SUCCESS'' @ [CHR 0x0A], snd (pipe_readline demo_os ?w2 6))"
    using l by (simp add: prod_eq_iff)
  have s: "endswith (strip (''UNLINK /a/x.desktop SUCCESS'' @ [CHR 0x0A])) ''SUCCESS''"
    by (simp add: strip_def space1_def space2_def space3_def endswith_def)
  from unlink_fallback_result [OF a b c d e] s a d l
  show ?thesis by (simp add: demo_state_def)
qed

text \<open>
  A response line with a space between \<open>SUCCESS\<close> and the newline does not end with
  \<open>SUCCESS\<close>, and \<open>remove_file\<close> returns \<open>True\<close> on it: line 154 strips the line
  before line 156 tests it.
\<close>

theorem unlink_fallback_trailing_space_counterexample:
  "pipe_readline scripted_os (''UNLINK /a/x.desktop SUCCESS '' @ [CHR 0x0A]) 6
     = (''UNLINK /a/x.desktop SUCCESS '' @ [CHR 0x0A], [])
   \<and> \<not> endswith ''UNLINK /a/x.desktop SUCCESS '' ''SUCCESS''
   \<and> remove_file scripted_os
        \<lparr>c_world = ''UNLINK /a/x.desktop SUCCESS '' @ [CHR 0x0A],
         c_cache = None, c_created = [], c_log = [], c_stdout = [], c_stdin = []\<rparr>
        ''/a/x.desktop''
     = (Inr (Some True),
        \<lparr>c_world = [],
         c_cache = Some \<lparr>pid = 4242, p_stdin = Some 5, p_stdout = Some 6\<rparr>,
         c_created = [\<lparr>pid = 4242, p_stdin = Some 5, p_stdout = Some 6\<rparr>],
         c_log = [], c_stdout = [], c_stdin = []\<rparr>)"
  by (simp add: scripted_os_def remove_file_def unlink_fallback_def privilaged_subprocess_def
      readline_def strip_def space1_def space2_def space3_def endswith_def newline_def Let_def)

text \<open>The same with a no-break space, U+00A0, in the place of the space.\<close>

lemma remove_file_no_break_space:
  "fst (remove_file scripted_os
        \<lparr>c_world = ''UNLINK /a/x.desktop SUCCESS'' @ [CHR 0xC2, CHR 0xA0, CHR 0x0A],
         c_cache = None, c_created = [], c_log = [], c_stdout = [], c_stdin = []\<rparr>
        ''/a/x.desktop'')
     = Inr (Some True)"
  by (simp add: scripted_os_def remove_file_def unlink_fallback_def privilaged_subprocess_def
      readline_def strip_eval endswith_def newline_def Let_def)




lemmas client_eval = find_and_fix_def fix_loop.simps print_report_def print_def py_input_def
  print_totals_def prompt_text_def str_opt_def remove_file_def unlink_fallback_def edit_file_def

text \<open>
  Claim C8, as the code has it. When the scanner has found at least one broken entry and
  the loop over the entries has ended, at the end of the list or at \<open>quit\<close>, the program
  prints an empty line, the number of entries found, then the number deleted if it is
  greater than zero, then the number edited if it is greater than zero, and an empty line:
  lines 194 and 196 guard the last two totals.
\<close>

theorem find_and_fix_prints_totals:
  assumes "find_broken_desktop_files sos files = Inr entries"
    and "entries \<noteq> []"
    and "fix_loop os entries 0 0 st = (Inr (delete_count, edit_count), st1)"
  shows "find_and_fix os sos files st =
           (Inr (),
            st1\<lparr>c_stdout := c_stdout st1 @ [CHR 0x0A]
                   @ str_nat (length entries) @ '' potentially bad .desktop files were found.''
                   @ [CHR 0x0A]
                   @ (if 0 < delete_count then str_nat delete_count @ '' deleted.'' @ [CHR 0x0A]
                      else [])
                   @ (if 0 < edit_count then str_nat edit_count @ '' edited.'' @ [CHR 0x0A]
                      else [])
                   @ [CHR 0x0A]\<rparr>)"
  using assms
  by (simp add: find_and_fix_def print_totals_def print_def newline_def Let_def del: str_nat.simps)


text \<open>One broken entry, which the user deletes; the helper removes the file.\<close>

theorem find_and_fix_prints_totals_witness:
  "find_broken_desktop_files (plain_os (\<lambda>p. False) (\<lambda>p. None))
       [\<lparr>f_location = ''/usr/share/applications/b.desktop'',
         f_sections = [(''Desktop Entry'', [(''name'', ''B'')])], f_error = None\<rparr>]
     = Inr [\<lparr>location = ''/usr/share/applications/b.desktop'',
             reason = Some ''No [Desktop Entry].Exec entry found.'',
             exec = None, full_exec = None\<rparr>]
   \<and> fst (fix_loop demo_os
          [\<lparr>location = ''/usr/share/applications/b.desktop'',
            reason = Some ''No [Desktop Entry].Exec entry found.'',
            exec = None, full_exec = None\<rparr>] 0 0
          (demo_state [''/usr/share/applications/b.desktop'' \<mapsto> File False] (''D'' @ [CHR 0x0A])))
     = Inr (1, 0)
   \<and> c_stdout (snd (find_and_fix demo_os (plain_os (\<lambda>p. False) (\<lambda>p. None))
          [\<lparr>f_location = ''/usr/share/applications/b.desktop'',
            f_sections = [(''Desktop Entry'', [(''name'', ''B'')])], f_error = None\<rparr>]
          (demo_state [''/usr/share/applications/b.desktop'' \<mapsto> File False] (''D'' @ [CHR 0x0A]))))
     = c_stdout (snd (fix_loop demo_os
          [\<lparr>location = ''/usr/share/applications/b.desktop'',
            reason = Some ''No [Desktop Entry].Exec entry found.'',
            exec = None, full_exec = None\<rparr>] 0 0
          (demo_state [''/usr/share/applications/b.desktop'' \<mapsto> File False] (''D'' @ [CHR 0x0A]))))
       @ [CHR 0x0A] @ ''1 potentially bad .desktop files were found.'' @ [CHR 0x0A]
       @ ''1 deleted.'' @ [CHR 0x0A] @ [CHR 0x0A]"
proof -
  let ?sos = "plain_os (\<lambda>p. False) (\<lambda>p. None)"
  let ?files = "[\<lparr>f_location = ''/usr/share/applications/b.desktop'',
         f_sections = [(''Desktop Entry'', [(''name'', ''B'')])], f_error = None\<rparr>]"
  let ?entries = "[\<lparr>location = ''/usr/share/applications/b.desktop'',
             reason = Some ''No [Desktop Entry].Exec entry found.'',
             exec = None, full_exec = None\<rparr>]"
  let ?st = "demo_state [''/usr/share/applications/b.desktop'' \<mapsto> File False] (''D'' @ [CHR 0x0A])"
  have a: "find_broken_desktop_files ?sos ?files = Inr ?entries"
    by (simp add: scan_eval lower_def lower_char_def)
  have b: "?entries \<noteq> []"
    by simp
  have c: "fst (fix_loop demo_os ?entries 0 0 ?st) = Inr (1, 0)"
    by (simp add: client_eval demo_eval lower_def lower_char_def)
  then have d: "fix_loop demo_os ?entries 0 0 ?st = (Inr (1, 0), snd (fix_loop demo_os ?entries 0 0 ?st))"
    by (simp add: prod_eq_iff)
  have n: "str_nat 1 = ''1''"
    by (simp add: str_nat.simps)
  from find_and_fix_prints_totals [OF a b d] n a c
  show ?thesis
    by simp
qed

text \<open>
  One broken entry and a user who answers \<open>q\<close>: all that is printed after the prompt is
  an empty line, the number found and an empty line. Neither the number deleted nor the
  number edited is printed.
\<close>

theorem find_and_fix_totals_counterexample:
  "find_and_fix demo_os (plain_os (\<lambda>p. False) (\<lambda>p. None))
       [\<lparr>f_location = ''/usr/share/applications/b.desktop'',
         f_sections = [(''Desktop Entry'', [(''name'', ''B'')])], f_error = None\<rparr>]
       (demo_state [''/usr/share/applications/b.desktop'' \<mapsto> File False] (''q'' @ [CHR 0x0A]))
     = (Inr (),
        (demo_state [''/usr/share/applications/b.desktop'' \<mapsto> File False] [])
          \<lparr>c_stdout := [CHR 0x0A]
             @ box_top @ '' /usr/share/applications/b.desktop'' @ [CHR 0x0A]
             @ box_bar @ [CHR 0x0A]
             @ box_item @ '' Problem     No [Desktop Entry].Exec entry found.'' @ [CHR 0x0A]
             @ box_bar @ [CHR 0x0A]
             @ box_bottom @ '' [d]elete, [e]dit, [q]uit, or [i]gnore (default):''
             @ [CHR 0x0A] @ ''1 potentially bad .desktop files were found.'' @ [CHR 0x0A]
             @ [CHR 0x0A]\<rparr>)"
  by (simp add: scan_eval client_eval demo_eval lower_def lower_char_def str_nat.simps)

end
